theory Spec2Isabelle
  imports Complex_Main
begin

section \<open>Data model of the Configure extension\<close>

text \<open>
  The extension keeps two private fields: the set \<open>configuring\<close> of IEEE addresses
  with a configuration attempt in flight and the table \<open>attempts\<close> of failure counts.
  A device object is read through its getters; the only part of it that the extension
  writes is \<open>zh.meta.configured\<close>, which lives in a store keyed by the IEEE address so
  that every reference to one device sees the same marker. The type of a device is the
  string \<open>zh.type\<close>, compared with \<open>"Router"\<close>, \<open>"EndDevice"\<close> and
  \<open>"Coordinator"\<close>.
\<close>

datatype configure_event = Started | Zigbee_event | Reporting_disabled | Mqtt_message

text \<open>
  A definition of the converters catalogue. \<open>def_configure\<close> says whether the definition
  supplies a \<open>configure\<close> routine; the routine itself is an external collaborator whose
  outcome arrives later as a settlement of the awaited promise.
  \<open>zhc.getConfigureKey(definition)\<close> belongs to the converters library; the key it
  yields for a definition is the field \<open>def_configure_key\<close>.
\<close>

record definition_t =
  def_configure :: bool
  def_configure_key :: nat

record device =
  ieeeAddr :: string
  dev_name :: string
  dev_definition :: "definition_t option"
  options_disabled :: bool
  interviewed :: bool
  zh_type :: string

text \<open>A JavaScript error value: its \<open>message\<close> and its \<open>stack\<close>.\<close>

datatype js_error = JsError (err_message: string) (err_stack: string)

text \<open>
  The counters are JavaScript numbers. \<open>++\<close> on a missing entry yields \<open>NaN\<close>, and
  every comparison with \<open>undefined\<close> or \<open>NaN\<close> is false.
\<close>

datatype js_number = Num nat | NaN

fun js_incr :: "js_number option \<Rightarrow> js_number" where
  "js_incr (Some (Num n)) = Num (Suc n)"
| "js_incr (Some NaN) = NaN"
| "js_incr None = NaN"

fun js_ge3 :: "js_number option \<Rightarrow> bool" where
  "js_ge3 (Some (Num n)) = (3 \<le> n)"
| "js_ge3 (Some NaN) = False"
| "js_ge3 None = False"

text \<open>Everything the extension does to its collaborators, in program order.\<close>

datatype effect =
    Log_configuring string
  | Log_success string
  | Log_failed string js_number js_error
  | Invoke string
  | Save string "nat option"
  | EmitDevicesChanged
  | Publish string string

record state =
  configuring :: "string set"
  attempts :: "string \<rightharpoonup> js_number"
  meta_configured :: "string \<rightharpoonup> nat"
  effects :: "effect list"

definition initial_state :: state where
  "initial_state = \<lparr>configuring = {}, attempts = Map.empty, meta_configured = Map.empty, effects = []\<rparr>"

section \<open>Configure.configure\<close>

text \<open>
  The method is asynchronous with a single suspension point, the \<open>await\<close> of the
  configuration routine. \<open>configure_begin\<close> is the code up to that point and
  \<open>configure_end\<close> the code that runs when the routine settles. Each \<open>return\<close>
  statement of the source is a distinct exit. The collaborators called on the way (the
  logger, \<open>zh.save\<close>, the event bus) are taken to return normally.
\<close>

datatype exit_point =
    Exit_no_configure
  | Exit_not_eligible
  | Exit_configured
  | Exit_end_device
  | Exit_gate

record pending =
  p_device :: device
  p_definition :: definition_t
  p_throwError :: bool

datatype begin_result = Returned exit_point | Awaiting pending

definition configure_begin ::
  "state \<Rightarrow> device \<Rightarrow> configure_event \<Rightarrow> bool \<Rightarrow> bool \<Rightarrow> begin_result \<times> state" where
  "configure_begin st dev event force throwError =
    (case dev_definition dev of
       None \<Rightarrow> (Returned Exit_no_configure, st)
     | Some defn \<Rightarrow>
        if \<not> def_configure defn then (Returned Exit_no_configure, st)
        else if \<not> force \<and> (options_disabled dev \<or> \<not> interviewed dev)
          then (Returned Exit_not_eligible, st)
        else if \<not> force \<and> meta_configured st (ieeeAddr dev) \<noteq> None
          then (Returned Exit_configured, st)
        else if \<not> force \<and> zh_type dev = ''EndDevice'' \<and> event \<noteq> Zigbee_event
          then (Returned Exit_end_device, st)
        else if ieeeAddr dev \<in> configuring st \<or> (js_ge3 (attempts st (ieeeAddr dev)) \<and> \<not> force)
          then (Returned Exit_gate, st)
        else
          (Awaiting \<lparr>p_device = dev, p_definition = defn, p_throwError = throwError\<rparr>,
           st\<lparr>configuring := insert (ieeeAddr dev) (configuring st),
              attempts := (if attempts st (ieeeAddr dev) = None
                           then (attempts st)(ieeeAddr dev \<mapsto> Num 0) else attempts st),
              effects := effects st @ [Log_configuring (dev_name dev), Invoke (ieeeAddr dev)]\<rparr>))"

datatype outcome = Resolved | Rejected js_error

text \<open>
  The \<open>try\<close> body after the \<open>await\<close>, the \<open>catch\<close> and the \<open>finally\<close>. The second
  component is the error that leaves the method, if any.
\<close>

definition configure_end :: "state \<Rightarrow> pending \<Rightarrow> outcome \<Rightarrow> js_error option \<times> state" where
  "configure_end st p out =
    (let a = ieeeAddr (p_device p) in
     case out of
       Resolved \<Rightarrow>
         (let k = def_configure_key (p_definition p) in
          (None,
           st\<lparr>meta_configured := (meta_configured st)(a \<mapsto> k),
              effects := effects st @ [Log_success (dev_name (p_device p)), Save a (Some k), EmitDevicesChanged],
              configuring := configuring st - {a}\<rparr>))
     | Rejected err \<Rightarrow>
         (let attempt = js_incr (attempts st a) in
          (if p_throwError p then Some err else None,
           st\<lparr>attempts := (attempts st)(a \<mapsto> attempt),
              effects := effects st @ [Log_failed (dev_name (p_device p)) attempt err],
              configuring := configuring st - {a}\<rparr>)))"

section \<open>The triggers of Configure.start and Configure.onReconfigure\<close>

text \<open>
  \<open>onReconfigure\<close> and the device-joined listener delete the marker and save the device
  when the marker is present, before they call \<open>configure\<close>.
\<close>

definition clear_marker :: "state \<Rightarrow> device \<Rightarrow> state" where
  "clear_marker st dev =
    (if meta_configured st (ieeeAddr dev) \<noteq> None
     then st\<lparr>meta_configured := (meta_configured st)(ieeeAddr dev := None),
             effects := effects st @ [Save (ieeeAddr dev) None]\<rparr>
     else st)"

definition onReconfigure :: "state \<Rightarrow> device \<Rightarrow> begin_result \<times> state" where
  "onReconfigure st dev = configure_begin (clear_marker st dev) dev Reporting_disabled False False"

definition onDeviceJoined :: "state \<Rightarrow> device \<Rightarrow> begin_result \<times> state" where
  "onDeviceJoined st dev = configure_begin (clear_marker st dev) dev Zigbee_event False False"

definition onDeviceInterview :: "state \<Rightarrow> device \<Rightarrow> begin_result \<times> state" where
  "onDeviceInterview st dev = configure_begin st dev Zigbee_event False False"

definition onLastSeenChanged :: "state \<Rightarrow> device \<Rightarrow> begin_result \<times> state" where
  "onLastSeenChanged st dev = configure_begin st dev Zigbee_event False False"

text \<open>
  The startup sweep calls \<open>configure\<close> with the event \<open>started\<close> for each device its
  iterator yields, one after the other; the iterator keeps the devices of type
  \<open>Router\<close> (see \<open>step\<close> below).
\<close>

definition onStarted :: "state \<Rightarrow> device \<Rightarrow> begin_result \<times> state" where
  "onStarted st dev = configure_begin st dev Started False False"

section \<open>JSON values and the environment\<close>

text \<open>
  A value as \<open>JSON.parse\<close> returns it. An object is the list of its properties in
  insertion order, each key once.
\<close>

datatype json =
    JNull
  | JBool bool
  | JNumber real
  | JString string
  | JArray "json list"
  | JObject "(string \<times> json) list"

datatype entity = Entity_device device | Entity_group

text \<open>
  What the handlers take from the language runtime, from libraries and from the
  settings: \<open>JSON.parse\<close> (\<open>None\<close> when it throws a SyntaxError), the stable
  \<open>stringify\<close>, the string conversion a template literal applies to a value that is not
  a string, \<open>zigbee.resolveEntity\<close>, and the two settings read by the handlers.
\<close>

record env =
  base_topic :: string
  JSON_parse :: "string \<Rightarrow> json option"
  stringify :: "json \<Rightarrow> string"
  js_String :: "json \<Rightarrow> string"
  resolveEntity :: "json \<Rightarrow> entity option"
  auth_token :: "string option"

datatype exn = TypeError | SyntaxError | Error_value js_error

text \<open>
  Modelled from the spec: \<open>utils.parseJSON\<close> is not part of the sources; a payload is
  decoded if it is JSON-shaped, else passed through verbatim (the fallback argument).
\<close>

definition parseJSON :: "env \<Rightarrow> string \<Rightarrow> string \<Rightarrow> json" where
  "parseJSON env v fallback = (case JSON_parse env v of Some j \<Rightarrow> j | None \<Rightarrow> JString fallback)"

text \<open>
  Modelled from the spec: \<open>utils.getResponse\<close> is not part of the sources; the response
  object is \<open>{id, status: ok|error, error?}\<close>, it echoes the \<open>id\<close> field of the request
  when the original payload has one and omits it otherwise.
\<close>

definition getResponse :: "json \<Rightarrow> (string \<times> json option) list \<Rightarrow> string option \<Rightarrow> json" where
  "getResponse request data error =
    JObject
      ((case request of
          JObject kvs \<Rightarrow> (case map_of kvs ''id'' of Some i \<Rightarrow> [(''id'', i)] | None \<Rightarrow> [])
        | _ \<Rightarrow> [])
       @ [(''status'', JString (case error of None \<Rightarrow> ''ok'' | Some _ \<Rightarrow> ''error''))]
       @ (case error of None \<Rightarrow> [] | Some e \<Rightarrow> [(''error'', JString e)]))"

text \<open>A template literal: a string is spliced as it is, any other value is converted.\<close>

definition template :: "env \<Rightarrow> json \<Rightarrow> string" where
  "template env v = (case v of JString s \<Rightarrow> s | _ \<Rightarrow> js_String env v)"

definition quoted :: "string \<Rightarrow> string" where
  "quoted s = [CHR 0x27] @ s @ [CHR 0x27]"

section \<open>Configure.onMQTTMessage\<close>

definition request_topic :: "env \<Rightarrow> string" where
  "request_topic env = base_topic env @ ''/bridge/request/device/configure''"

text \<open>
  \<open>typeof message === "object" ? message.id : message\<close>. \<open>typeof null\<close> is
  \<open>"object"\<close>, and reading a property of \<open>null\<close> throws a TypeError; an array has no
  \<open>id\<close> property.
\<close>

fun message_id :: "json \<Rightarrow> exn + json option" where
  "message_id JNull = Inl TypeError"
| "message_id (JObject kvs) = Inr (map_of kvs ''id'')"
| "message_id (JArray xs) = Inr None"
| "message_id v = Inr (Some v)"

definition response_topic :: string where
  "response_topic = ''bridge/response/device/configure''"

definition respond :: "env \<Rightarrow> state \<Rightarrow> json \<Rightarrow> json option \<Rightarrow> string option \<Rightarrow> state" where
  "respond env st message ID error =
    st\<lparr>effects := effects st @
      [Publish response_topic
         (stringify env (getResponse message [(''id'', ID)] error))]\<rparr>"

text \<open>Who awaits the configuration attempt: an event listener or the request handler.\<close>

datatype caller = From_event | From_mqtt json "json option"

datatype handler_result = Handler_done | Handler_thrown exn | Handler_awaiting pending caller

definition onMQTTMessage :: "env \<Rightarrow> state \<Rightarrow> string \<Rightarrow> string \<Rightarrow> handler_result \<times> state" where
  "onMQTTMessage env st topic msg =
    (if topic = request_topic env then
       (let message = parseJSON env msg msg in
        case message_id message of
          Inl e \<Rightarrow> (Handler_thrown e, st)
        | Inr None \<Rightarrow> (Handler_done, respond env st message None (Some ''Invalid payload''))
        | Inr (Some i) \<Rightarrow>
            (case resolveEntity env i of
               Some (Entity_device dev) \<Rightarrow>
                 (if (case dev_definition dev of None \<Rightarrow> True | Some d \<Rightarrow> \<not> def_configure d)
                  then (Handler_done,
                        respond env st message (Some i)
                          (Some (''Device '' @ quoted (dev_name dev) @ '' cannot be configured'')))
                  else
                    (case configure_begin st dev Mqtt_message True True of
                       (Returned x, st') \<Rightarrow> (Handler_done, respond env st' message (Some i) None)
                     | (Awaiting p, st') \<Rightarrow> (Handler_awaiting p (From_mqtt message (Some i)), st')))
             | _ \<Rightarrow>
                 (Handler_done,
                  respond env st message (Some i)
                    (Some (''Device '' @ quoted (template env i) @ '' does not exist'')))))
     else (Handler_done, st))"

text \<open>The rest of the caller once the awaited attempt has settled.\<close>

definition resume :: "env \<Rightarrow> state \<Rightarrow> pending \<Rightarrow> caller \<Rightarrow> outcome \<Rightarrow> handler_result \<times> state" where
  "resume env st p c out =
    (case configure_end st p out of
       (thrown, st') \<Rightarrow>
         (case c of
            From_event \<Rightarrow>
              (case thrown of None \<Rightarrow> (Handler_done, st') | Some e \<Rightarrow> (Handler_thrown (Error_value e), st'))
          | From_mqtt message ID \<Rightarrow>
              (Handler_done,
               respond env st' message ID
                 (case thrown of None \<Rightarrow> None
                  | Some e \<Rightarrow> Some (''Failed to configure ('' @ err_message e @ '')'')))))"

section \<open>Interleavings\<close>

text \<open>
  The runtime is single-threaded: a handler runs until it returns or reaches its
  \<open>await\<close>, and a suspended call continues when the routine it awaits settles. A
  system state is the extension's state together with the suspended calls; an
  interleaving is a list of events, each a trigger or the settlement of one suspended
  call. Errors that leave a handler are recorded in \<open>uncaught\<close>.
\<close>

record task =
  t_frame :: pending
  t_caller :: caller

record sys =
  world :: state
  tasks :: "task list"
  uncaught :: "exn list"

datatype sys_event =
    Ev_started device
  | Ev_deviceJoined device
  | Ev_deviceInterview device
  | Ev_lastSeenChanged device
  | Ev_reconfigure device
  | Ev_mqttMessage string string
  | Ev_settle nat outcome

definition initial_sys :: sys where
  "initial_sys = \<lparr>world = initial_state, tasks = [], uncaught = []\<rparr>"

definition after_begin :: "sys \<Rightarrow> begin_result \<times> state \<Rightarrow> sys" where
  "after_begin s r =
    (case r of
       (Returned x, st') \<Rightarrow> s\<lparr>world := st'\<rparr>
     | (Awaiting p, st') \<Rightarrow> s\<lparr>world := st', tasks := tasks s @ [\<lparr>t_frame = p, t_caller = From_event\<rparr>]\<rparr>)"

definition after_handler :: "sys \<Rightarrow> handler_result \<times> state \<Rightarrow> sys" where
  "after_handler s r =
    (case r of
       (Handler_done, st') \<Rightarrow> s\<lparr>world := st'\<rparr>
     | (Handler_thrown e, st') \<Rightarrow> s\<lparr>world := st', uncaught := uncaught s @ [e]\<rparr>
     | (Handler_awaiting p c, st') \<Rightarrow> s\<lparr>world := st', tasks := tasks s @ [\<lparr>t_frame = p, t_caller = c\<rparr>]\<rparr>)"

definition step :: "env \<Rightarrow> sys \<Rightarrow> sys_event \<Rightarrow> sys" where
  "step env s ev =
    (case ev of
       Ev_started dev \<Rightarrow> (if zh_type dev = ''Router'' then after_begin s (onStarted (world s) dev) else s)
     | Ev_deviceJoined dev \<Rightarrow> after_begin s (onDeviceJoined (world s) dev)
     | Ev_deviceInterview dev \<Rightarrow> after_begin s (onDeviceInterview (world s) dev)
     | Ev_lastSeenChanged dev \<Rightarrow> after_begin s (onLastSeenChanged (world s) dev)
     | Ev_reconfigure dev \<Rightarrow> after_begin s (onReconfigure (world s) dev)
     | Ev_mqttMessage topic msg \<Rightarrow> after_handler s (onMQTTMessage env (world s) topic msg)
     | Ev_settle i out \<Rightarrow>
         (if i < length (tasks s)
          then after_handler (s\<lparr>tasks := take i (tasks s) @ drop (Suc i) (tasks s)\<rparr>)
                 (resume env (world s) (t_frame (tasks s ! i)) (t_caller (tasks s ! i)) out)
          else s))"

definition run :: "env \<Rightarrow> sys \<Rightarrow> sys_event list \<Rightarrow> sys" where
  "run env s evs = foldl (step env) s evs"

text \<open>The configuration attempts in flight for the device with address \<open>a\<close>.\<close>

definition in_flight :: "sys \<Rightarrow> string \<Rightarrow> task list" where
  "in_flight s a = filter (\<lambda>t. ieeeAddr (p_device (t_frame t)) = a) (tasks s)"

section \<open>Frontend: the WebSocket gateway\<close>

text \<open>
  \<open>query.token\<close> of the parsed request URL is absent, one string, or an array of
  strings when the parameter is repeated.
\<close>

datatype query_token = Token_absent | Token_string string | Token_array "string list"

text \<open>
  What is observable of one socket: the close frame sent by the server, whether the
  message listener of the bridge is attached, and the messages sent to the client.
\<close>

record websocket =
  ws_closed :: "(nat \<times> string) option"
  ws_message_listener :: bool
  ws_sent :: "string list"

definition new_websocket :: websocket where
  "new_websocket = \<lparr>ws_closed = None, ws_message_listener = False, ws_sent = []\<rparr>"

definition startsWith :: "string \<Rightarrow> string \<Rightarrow> bool" where
  "startsWith s p = (take (length p) s = p)"

text \<open>
  Modelled from the spec: \<open>utils.deviceNotCoordinator\<close> is not part of the sources; the
  snapshots are for every known device that is not the coordinator.
\<close>

definition deviceNotCoordinator :: "device \<Rightarrow> bool" where
  "deviceNotCoordinator d = (zh_type d \<noteq> ''Coordinator'')"

text \<open>
  The connection handler attaches the message listener and replays the retained
  messages under the base topic, then one snapshot for each device that is not the
  coordinator. The snapshot payload is assembled from the state store, the last-seen
  setting and the link quality, all collaborators: it is the parameter \<open>payload_of\<close>.
\<close>

definition onWebSocketConnection ::
  "env \<Rightarrow> (string \<times> string) list \<Rightarrow> device list \<Rightarrow> (device \<Rightarrow> json) \<Rightarrow> websocket \<Rightarrow> websocket" where
  "onWebSocketConnection env retained devs payload_of ws =
    ws\<lparr>ws_message_listener := True,
       ws_sent := ws_sent ws
         @ map (\<lambda>(topic, payload).
                 stringify env (JObject [(''topic'', JString (drop (length (base_topic env) + 1) topic)),
                                         (''payload'', parseJSON env payload payload)]))
               (filter (\<lambda>(topic, payload). startsWith topic (base_topic env @ ''/'')) retained)
         @ map (\<lambda>d. stringify env (JObject [(''topic'', JString (dev_name d)), (''payload'', payload_of d)]))
               (filter deviceNotCoordinator devs)\<rparr>"

text \<open>The callback of \<open>handleUpgrade\<close>; an absent or empty \<open>auth_token\<close> is falsy.\<close>

definition authorized :: "env \<Rightarrow> query_token \<Rightarrow> bool" where
  "authorized env token =
    (case auth_token env of
       None \<Rightarrow> True
     | Some t \<Rightarrow> t = [] \<or> token = Token_string t)"

definition onUpgrade ::
  "env \<Rightarrow> query_token \<Rightarrow> (string \<times> string) list \<Rightarrow> device list \<Rightarrow> (device \<Rightarrow> json) \<Rightarrow> websocket \<Rightarrow> websocket" where
  "onUpgrade env token retained devs payload_of ws =
    (if authorized env token
     then onWebSocketConnection env retained devs payload_of ws
     else ws\<lparr>ws_closed := Some (4401, ''Unauthorized'')\<rparr>)"

text \<open>
  The message listener. \<open>data\<close> is \<open>None\<close> when it is falsy; a Buffer, even an empty
  one, is truthy. The result is the error thrown by the listener or the calls of
  \<open>mqtt.onMessage\<close> it made, each a topic and a payload.
  Destructuring \<open>null\<close> throws a TypeError. A property that is missing is
  \<open>undefined\<close>: the template literal prints it as \<open>undefined\<close>, and for a missing
  payload \<open>stringify\<close> returns \<open>undefined\<close> and \<open>Buffer.from\<close> throws a TypeError.
\<close>

fun property :: "json \<Rightarrow> string \<Rightarrow> json option" where
  "property (JObject kvs) k = map_of kvs k"
| "property v k = None"

definition ws_onMessage :: "env \<Rightarrow> string option \<Rightarrow> bool \<Rightarrow> exn + (string \<times> string) list" where
  "ws_onMessage env data isBinary =
    (case data of
       None \<Rightarrow> Inr []
     | Some message \<Rightarrow>
        if isBinary then Inr []
        else
          (case JSON_parse env message of
             None \<Rightarrow> Inl SyntaxError
           | Some JNull \<Rightarrow> Inl TypeError
           | Some v \<Rightarrow>
              (let topic = (case property v ''topic'' of None \<Rightarrow> ''undefined'' | Some t \<Rightarrow> template env t) in
               case property v ''payload'' of
                 None \<Rightarrow> Inl TypeError
               | Some payload \<Rightarrow> Inr [(base_topic env @ ''/'' @ topic, stringify env payload)])))"

section \<open>Notions used in the statements\<close>

text \<open>The address of the device of a suspended attempt.\<close>

definition task_addr :: "task \<Rightarrow> string" where
  "task_addr t = ieeeAddr (p_device (t_frame t))"

text \<open>
  The invariant of the in-flight set: the suspended attempts have pairwise different
  addresses, and \<open>configuring\<close> holds exactly their addresses.
\<close>

definition sys_inv :: "sys \<Rightarrow> bool" where
  "sys_inv s = (distinct (map task_addr (tasks s)) \<and> configuring (world s) = set (map task_addr (tasks s)))"

text \<open>\<open>device.definition?.configure\<close> is truthy.\<close>

definition has_configure :: "device \<Rightarrow> bool" where
  "has_configure dev = (case dev_definition dev of None \<Rightarrow> False | Some d \<Rightarrow> def_configure d)"

text \<open>The call got past the eligibility rules: it returned at the concurrency gate or went on to the routine.\<close>

definition reaches_gate :: "begin_result \<Rightarrow> bool" where
  "reaches_gate r = (case r of Returned x \<Rightarrow> x = Exit_gate | Awaiting p \<Rightarrow> True)"

text \<open>The in-flight set, the failure counters and the suspended attempts are the same in both system states.\<close>

definition same_bookkeeping :: "sys \<Rightarrow> sys \<Rightarrow> bool" where
  "same_bookkeeping s s' =
    (configuring (world s') = configuring (world s) \<and> attempts (world s') = attempts (world s)
     \<and> tasks s' = tasks s)"

text \<open>The events whose listeners delete the marker of the device with address \<open>a\<close>.\<close>

definition clears_marker :: "sys_event \<Rightarrow> string \<Rightarrow> bool" where
  "clears_marker ev a =
    (case ev of
       Ev_reconfigure dev \<Rightarrow> ieeeAddr dev = a
     | Ev_deviceJoined dev \<Rightarrow> ieeeAddr dev = a
     | _ \<Rightarrow> False)"

text \<open>The counter of an address read as a number, 0 when there is none.\<close>

definition failed_count :: "state \<Rightarrow> string \<Rightarrow> nat" where
  "failed_count st a = (case attempts st a of Some (Num n) \<Rightarrow> n | _ \<Rightarrow> 0)"

text \<open>The invariant of the counters: no counter is \<open>NaN\<close>, and the device of every suspended attempt has one.\<close>

definition attempts_inv :: "sys \<Rightarrow> bool" where
  "attempts_inv s =
    ((\<forall>a. attempts (world s) a \<noteq> Some NaN) \<and>
     (\<forall>t \<in> set (tasks s). attempts (world s) (task_addr t) \<noteq> None))"

text \<open>The event settles a suspended attempt for address \<open>a\<close> with a rejection.\<close>

definition is_failure :: "sys \<Rightarrow> sys_event \<Rightarrow> string \<Rightarrow> bool" where
  "is_failure s ev a =
    (case ev of
       Ev_settle i (Rejected e) \<Rightarrow> i < length (tasks s) \<and> task_addr (tasks s ! i) = a
     | _ \<Rightarrow> False)"

text \<open>The number of attempts for address \<open>a\<close> that are rejected during a run from \<open>s\<close>.\<close>

fun failures :: "env \<Rightarrow> sys \<Rightarrow> sys_event list \<Rightarrow> string \<Rightarrow> nat" where
  "failures env s [] a = 0"
| "failures env s (ev # evs) a =
     (if is_failure s ev a then 1 else 0) + failures env (step env s ev) evs a"

section \<open>Concrete devices and a concrete environment\<close>

definition example_router :: device where
  "example_router =
    \<lparr>ieeeAddr = ''0x00124b0001'', dev_name = ''bulb'',
     dev_definition = Some \<lparr>def_configure = True, def_configure_key = 1\<rparr>,
     options_disabled = False, interviewed = True, zh_type = ''Router''\<rparr>"

definition example_plain :: device where
  "example_plain =
    \<lparr>ieeeAddr = ''0x00124b0002'', dev_name = ''plug'', dev_definition = None,
     options_disabled = False, interviewed = True, zh_type = ''Router''\<rparr>"

definition example_parse :: "string \<Rightarrow> json option" where
  \<open>example_parse s =
    (if s = ''null'' then Some JNull
     else if s = ''{"id": "bad_id"}'' then Some (JObject [(''id'', JString ''bad_id'')])
     else if s = ''{"id": "0x00124b0001"}'' then Some (JObject [(''id'', JString ''0x00124b0001'')])
     else if s = ''{"topic": "t", "payload": {"a":1}}''
       then Some (JObject [(''topic'', JString ''t''), (''payload'', JObject [(''a'', JNumber 1)])])
     else None)\<close>

definition example_env :: env where
  \<open>example_env =
    \<lparr>base_topic = ''zigbee2mqtt'',
     JSON_parse = example_parse,
     stringify = (\<lambda>j. if j = JObject [(''a'', JNumber 1)] then ''{"a":1}'' else ''...''),
     js_String = (\<lambda>j. ''[object Object]''),
     resolveEntity = (\<lambda>j. if j = JString ''0x00124b0001'' then Some (Entity_device example_router)
                           else if j = JString ''0x00124b0002'' then Some (Entity_device example_plain)
                           else None),
     auth_token = Some ''secret''\<rparr>\<close>

definition example_pending :: pending where
  "example_pending =
    \<lparr>p_device = example_router, p_definition = \<lparr>def_configure = True, def_configure_key = 1\<rparr>,
     p_throwError = False\<rparr>"

definition example_begun :: state where
  "example_begun =
    \<lparr>configuring = {''0x00124b0001''}, attempts = [''0x00124b0001'' \<mapsto> Num 0],
     meta_configured = Map.empty,
     effects = [Log_configuring ''bulb'', Invoke ''0x00124b0001'']\<rparr>"

definition example_failed_thrice :: "sys_event list" where
  "example_failed_thrice =
    [Ev_mqttMessage ''zigbee2mqtt/bridge/request/device/configure'' ''0x00124b0001'',
     Ev_settle 0 (Rejected (JsError ''timeout'' [])),
     Ev_mqttMessage ''zigbee2mqtt/bridge/request/device/configure'' ''0x00124b0001'',
     Ev_settle 0 (Rejected (JsError ''timeout'' [])),
     Ev_mqttMessage ''zigbee2mqtt/bridge/request/device/configure'' ''0x00124b0001'',
     Ev_settle 0 (Rejected (JsError ''timeout'' []))]"

definition example_exhausted :: state where
  "example_exhausted =
    \<lparr>configuring = {}, attempts = [''0x00124b0001'' \<mapsto> Num 3], meta_configured = Map.empty,
     effects = []\<rparr>"

definition example_exhausted_busy :: state where
  "example_exhausted_busy =
    \<lparr>configuring = {''0x00124b0001''}, attempts = [''0x00124b0001'' \<mapsto> Num 3],
     meta_configured = Map.empty, effects = []\<rparr>"

definition example_configured :: state where
  "example_configured =
    \<lparr>configuring = {}, attempts = [''0x00124b0001'' \<mapsto> Num 0],
     meta_configured = [''0x00124b0001'' \<mapsto> 1], effects = []\<rparr>"

section \<open>What each piece of code changes\<close>

lemma configure_begin_cases:
  assumes "configure_begin st dev ev force te = (r, st')"
  shows "(\<exists>x. r = Returned x \<and> st' = st) \<or>
         (\<exists>p. r = Awaiting p \<and> p_device p = dev \<and> ieeeAddr dev \<notin> configuring st
              \<and> configuring st' = insert (ieeeAddr dev) (configuring st))"
  using assms by (auto simp: configure_begin_def split: option.splits if_splits)

lemma configure_begin_returned:
  "fst (configure_begin st dev ev force te) = Returned x \<Longrightarrow> snd (configure_begin st dev ev force te) = st"
  by (auto simp: configure_begin_def split: option.splits if_splits)

lemma configure_begin_in_flight:
  "ieeeAddr dev \<in> configuring st \<Longrightarrow> \<exists>x. configure_begin st dev ev force te = (Returned x, st)"
  by (simp add: configure_begin_def split: option.split)

lemma configure_begin_awaiting:
  assumes "fst (configure_begin st dev ev force te) = Awaiting p"
  shows "ieeeAddr dev \<notin> configuring st"
    and "configuring (snd (configure_begin st dev ev force te)) = insert (ieeeAddr dev) (configuring st)"
    and "effects (snd (configure_begin st dev ev force te))
          = effects st @ [Log_configuring (dev_name dev), Invoke (ieeeAddr dev)]"
    and "attempts (snd (configure_begin st dev ev force te))
          = (if attempts st (ieeeAddr dev) = None then (attempts st)(ieeeAddr dev \<mapsto> Num 0) else attempts st)"
    and "p_device p = dev" and "p_throwError p = te" and "dev_definition dev = Some (p_definition p)"
    and "def_configure (p_definition p)"
  using assms by (auto simp: configure_begin_def split: option.splits if_splits)

lemma configure_begin_meta:
  "meta_configured (snd (configure_begin st dev ev force te)) = meta_configured st"
  by (simp add: configure_begin_def split: option.split)

lemma clear_marker_configuring: "configuring (clear_marker st dev) = configuring st"
  by (simp add: clear_marker_def)

lemma clear_marker_attempts: "attempts (clear_marker st dev) = attempts st"
  by (simp add: clear_marker_def)

lemma respond_configuring: "configuring (respond env st m i e) = configuring st"
  by (simp add: respond_def)

lemma respond_attempts: "attempts (respond env st m i e) = attempts st"
  by (simp add: respond_def)

lemma respond_meta: "meta_configured (respond env st m i e) = meta_configured st"
  by (simp add: respond_def)

lemma configure_end_configuring:
  "configuring (snd (configure_end st p out)) = configuring st - {ieeeAddr (p_device p)}"
  by (simp add: configure_end_def Let_def split: outcome.splits)

lemma configure_end_attempts:
  "attempts (snd (configure_end st p out)) =
     (case out of Resolved \<Rightarrow> attempts st
      | Rejected e \<Rightarrow> (attempts st)(ieeeAddr (p_device p) \<mapsto> js_incr (attempts st (ieeeAddr (p_device p)))))"
  by (simp add: configure_end_def Let_def split: outcome.splits)

lemma configure_end_meta:
  "meta_configured (snd (configure_end st p out)) =
     (case out of Resolved \<Rightarrow> (meta_configured st)(ieeeAddr (p_device p) \<mapsto> def_configure_key (p_definition p))
      | Rejected e \<Rightarrow> meta_configured st)"
  by (simp add: configure_end_def Let_def split: outcome.splits)

lemma resume_not_awaiting: "fst (resume env st p c out) \<noteq> Handler_awaiting q d"
  by (cases "configure_end st p out"; cases c)
     (simp_all add: resume_def split: option.split)

lemma resume_world:
  "configuring (snd (resume env st p c out)) = configuring (snd (configure_end st p out))"
  "attempts (snd (resume env st p c out)) = attempts (snd (configure_end st p out))"
  "meta_configured (snd (resume env st p c out)) = meta_configured (snd (configure_end st p out))"
  by (cases "configure_end st p out"; cases c; cases "fst (configure_end st p out)";
      simp add: resume_def respond_configuring respond_attempts respond_meta)+

lemma resume_configuring:
  "configuring (snd (resume env st p c out)) = configuring st - {ieeeAddr (p_device p)}"
  by (simp add: resume_world configure_end_configuring)

text \<open>
  The request handler either answers at once, leaving the bookkeeping as it was, throws
  before it has touched anything, or is suspended in a forced call of \<open>configure\<close>.
\<close>

lemma onMQTTMessage_cases:
  assumes "onMQTTMessage env st topic msg = (r, st')"
  shows "((r = Handler_done \<or> (\<exists>e. r = Handler_thrown e)) \<and> configuring st' = configuring st
            \<and> attempts st' = attempts st \<and> meta_configured st' = meta_configured st) \<or>
         (\<exists>p c. r = Handler_awaiting p c
              \<and> fst (configure_begin st (p_device p) Mqtt_message True True) = Awaiting p
              \<and> st' = snd (configure_begin st (p_device p) Mqtt_message True True))"
proof (cases "topic = request_topic env")
  case False
  with assms show ?thesis by (simp add: onMQTTMessage_def)
next
  case True
  show ?thesis
  proof (cases "message_id (parseJSON env msg msg)")
    case (Inl e)
    with True assms show ?thesis by (auto simp: onMQTTMessage_def Let_def)
  next
    case (Inr ido)
    show ?thesis
    proof (cases ido)
      case None
      with Inr True assms show ?thesis
        by (auto simp: onMQTTMessage_def Let_def respond_configuring respond_attempts respond_meta)
    next
      case (Some i)
      show ?thesis
      proof (cases "resolveEntity env i")
        case None
        with Some Inr True assms show ?thesis
          by (auto simp: onMQTTMessage_def Let_def respond_configuring respond_attempts respond_meta)
      next
        case (Some ent)
        note ent = this
        show ?thesis
        proof (cases ent)
          case Entity_group
          with ent \<open>ido = Some i\<close> Inr True assms show ?thesis
            by (auto simp: onMQTTMessage_def Let_def respond_configuring respond_attempts respond_meta)
        next
          case (Entity_device dev)
          note facts = Entity_device ent \<open>ido = Some i\<close> Inr True
          show ?thesis
          proof (cases "case dev_definition dev of None \<Rightarrow> True | Some d \<Rightarrow> \<not> def_configure d")
            case True
            with facts assms show ?thesis
              by (auto simp: onMQTTMessage_def Let_def respond_configuring respond_attempts respond_meta)
          next
            case False
            show ?thesis
            proof (cases "configure_begin st dev Mqtt_message True True")
              case (Pair br st1)
              show ?thesis
              proof (cases br)
                case (Returned x)
                with Pair have "st1 = st"
                  using configure_begin_returned[of st dev Mqtt_message True True x] by simp
                with Returned Pair False facts assms show ?thesis
                  by (auto simp: onMQTTMessage_def Let_def respond_configuring respond_attempts respond_meta)
              next
                case (Awaiting p)
                with Pair have "p_device p = dev"
                  using configure_begin_awaiting(5)[of st dev Mqtt_message True True p] by simp
                with Awaiting Pair False facts assms show ?thesis
                  by (auto simp: onMQTTMessage_def Let_def)
              qed
            qed
          qed
        qed
      qed
    qed
  qed
qed

section \<open>The in-flight set under every interleaving\<close>

lemma after_begin_world: "world (after_begin s r) = snd r"
  by (cases r; cases "fst r") (simp_all add: after_begin_def)

lemma after_begin_tasks:
  "tasks (after_begin s r) =
     (case fst r of Returned x \<Rightarrow> tasks s
      | Awaiting p \<Rightarrow> tasks s @ [\<lparr>t_frame = p, t_caller = From_event\<rparr>])"
  by (cases r; cases "fst r") (simp_all add: after_begin_def)

lemma after_handler_world: "world (after_handler s r) = snd r"
  by (cases r; cases "fst r") (simp_all add: after_handler_def)

lemma after_handler_tasks:
  "tasks (after_handler s r) =
     (case fst r of Handler_awaiting p c \<Rightarrow> tasks s @ [\<lparr>t_frame = p, t_caller = c\<rparr>]
      | _ \<Rightarrow> tasks s)"
  by (cases r; cases "fst r") (simp_all add: after_handler_def)

lemma after_begin_inv:
  assumes "sys_inv s" and "configuring st = configuring (world s)"
  shows "sys_inv (after_begin s (configure_begin st dev ev force te))"
proof (cases "fst (configure_begin st dev ev force te)")
  case (Returned x)
  then show ?thesis
    using assms configure_begin_returned[of st dev ev force te x]
    by (simp add: sys_inv_def after_begin_world after_begin_tasks)
next
  case (Awaiting p)
  from configure_begin_awaiting(1,2,5)[OF Awaiting] assms Awaiting show ?thesis
    by (simp add: sys_inv_def after_begin_world after_begin_tasks task_addr_def)
qed

lemma after_handler_mqtt_inv:
  assumes "sys_inv s"
  shows "sys_inv (after_handler s (onMQTTMessage env (world s) topic msg))"
proof (cases "onMQTTMessage env (world s) topic msg")
  case (Pair r st')
  from onMQTTMessage_cases[OF Pair] show ?thesis
  proof
    assume "(r = Handler_done \<or> (\<exists>e. r = Handler_thrown e)) \<and> configuring st' = configuring (world s)
            \<and> attempts st' = attempts (world s) \<and> meta_configured st' = meta_configured (world s)"
    with assms Pair show ?thesis
      by (auto simp: sys_inv_def after_handler_world after_handler_tasks)
  next
    assume "\<exists>p c. r = Handler_awaiting p c
              \<and> fst (configure_begin (world s) (p_device p) Mqtt_message True True) = Awaiting p
              \<and> st' = snd (configure_begin (world s) (p_device p) Mqtt_message True True)"
    then obtain p c where r: "r = Handler_awaiting p c"
      and aw: "fst (configure_begin (world s) (p_device p) Mqtt_message True True) = Awaiting p"
      and st': "st' = snd (configure_begin (world s) (p_device p) Mqtt_message True True)"
      by blast
    from configure_begin_awaiting(1,2)[OF aw] assms r st' Pair show ?thesis
      by (simp add: sys_inv_def after_handler_world after_handler_tasks task_addr_def)
  qed
qed

lemma distinct_remove_nth:
  "distinct (map f xs) \<Longrightarrow> i < length xs \<Longrightarrow>
     distinct (map f (take i xs @ drop (Suc i) xs)) \<and>
     set (map f (take i xs @ drop (Suc i) xs)) = set (map f xs) - {f (xs ! i)}"
proof (induction xs arbitrary: i)
  case Nil
  then show ?case by simp
next
  case (Cons x xs)
  show ?case
  proof (cases i)
    case 0
    with Cons.prems show ?thesis by auto
  next
    case (Suc j)
    with Cons.prems have "j < length xs" and "distinct (map f xs)" by simp_all
    from Cons.IH[OF this(2) this(1)] Cons.prems Suc show ?thesis by auto
  qed
qed

lemma settle_inv:
  assumes "sys_inv s" and "i < length (tasks s)"
  shows "sys_inv (after_handler (s\<lparr>tasks := take i (tasks s) @ drop (Suc i) (tasks s)\<rparr>)
                 (resume env (world s) (t_frame (tasks s ! i)) (t_caller (tasks s ! i)) out))"
proof -
  let ?r = "resume env (world s) (t_frame (tasks s ! i)) (t_caller (tasks s ! i)) out"
  have c: "configuring (snd ?r) = configuring (world s) - {task_addr (tasks s ! i)}"
    by (simp add: resume_configuring task_addr_def)
  have d: "distinct (map task_addr (tasks s))" and e: "configuring (world s) = set (map task_addr (tasks s))"
    using assms(1) by (simp_all add: sys_inv_def)
  from distinct_remove_nth[OF d assms(2)]
  have r1: "distinct (map task_addr (take i (tasks s) @ drop (Suc i) (tasks s)))"
    and r2: "set (map task_addr (take i (tasks s) @ drop (Suc i) (tasks s)))
              = set (map task_addr (tasks s)) - {task_addr (tasks s ! i)}"
    by simp_all
  have t: "tasks (after_handler (s\<lparr>tasks := take i (tasks s) @ drop (Suc i) (tasks s)\<rparr>) ?r)
            = take i (tasks s) @ drop (Suc i) (tasks s)"
    by (cases "fst ?r") (simp_all add: after_handler_tasks resume_not_awaiting)
  show ?thesis
    unfolding sys_inv_def t after_handler_world c e using r1 r2 by simp
qed

lemma step_inv: "sys_inv s \<Longrightarrow> sys_inv (step env s ev)"
proof (cases ev)
  case (Ev_settle i out)
  assume "sys_inv s"
  then show ?thesis using Ev_settle settle_inv[of s i env out] by (simp add: step_def)
qed (simp_all add: step_def onStarted_def onDeviceJoined_def onDeviceInterview_def
       onLastSeenChanged_def onReconfigure_def after_begin_inv after_handler_mqtt_inv
       clear_marker_configuring)

lemma run_inv: "sys_inv s \<Longrightarrow> sys_inv (run env s evs)"
  unfolding run_def by (induction evs arbitrary: s) (simp_all add: step_inv)

lemma initial_inv: "sys_inv initial_sys"
  by (simp add: sys_inv_def initial_sys_def initial_state_def)

lemma distinct_filter_le1: "distinct (map f xs) \<Longrightarrow> length (filter (\<lambda>x. f x = a) xs) \<le> Suc 0"
proof (induction xs)
  case Nil
  then show ?case by simp
next
  case (Cons x xs)
  show ?case
  proof (cases "f x = a")
    case True
    with Cons.prems have "\<forall>y\<in>set xs. f y \<noteq> a" by (auto simp: image_iff)
    then have "filter (\<lambda>x. f x = a) xs = []" by (simp add: filter_empty_conv)
    with True show ?thesis by simp
  next
    case False
    with Cons show ?thesis by simp
  qed
qed

lemma in_flight_le1: "sys_inv s \<Longrightarrow> length (in_flight s a) \<le> Suc 0"
  using distinct_filter_le1[of task_addr "tasks s" a]
  by (simp add: sys_inv_def in_flight_def task_addr_def)

text \<open>
  Claim C1. Under every interleaving of triggers and settlements that starts from the
  initial state, at most one configuration attempt is in flight for any address, and the
  address is in \<open>configuring\<close> exactly while one is. A call that finds the flag set
  returns with the state unchanged, so the routine is not invoked. A call that reaches
  the routine found the flag clear and has set it in the state in which the routine is
  invoked. When the routine settles, resolved or rejected, with or without the error
  being rethrown, the flag is cleared.
\<close>

theorem configure_single_flight:
  "length (in_flight (run env initial_sys evs) a) \<le> 1
   \<and> (a \<in> configuring (world (run env initial_sys evs))) = (in_flight (run env initial_sys evs) a \<noteq> [])
   \<and> (ieeeAddr dev1 \<in> configuring st1 \<longrightarrow>
         (\<exists>x. configure_begin st1 dev1 ev1 force1 te1 = (Returned x, st1)))
   \<and> (fst (configure_begin st dev ev force te) = Awaiting p \<longrightarrow>
          ieeeAddr dev \<notin> configuring st
        \<and> ieeeAddr dev \<in> configuring (snd (configure_begin st dev ev force te))
        \<and> effects (snd (configure_begin st dev ev force te))
            = effects st @ [Log_configuring (dev_name dev), Invoke (ieeeAddr dev)])
   \<and> ieeeAddr (p_device q) \<notin> configuring (snd (configure_end st2 q out))"
proof -
  let ?s = "run env initial_sys evs"
  have inv: "sys_inv ?s" by (rule run_inv[OF initial_inv])
  have 1: "length (in_flight ?s a) \<le> 1" using in_flight_le1[OF inv, of a] by simp
  have "configuring (world ?s) = set (map task_addr (tasks ?s))"
    using inv by (simp add: sys_inv_def)
  then have 2: "(a \<in> configuring (world ?s)) = (in_flight ?s a \<noteq> [])"
    by (auto simp: in_flight_def task_addr_def filter_empty_conv)
  have 3: "ieeeAddr dev1 \<in> configuring st1 \<longrightarrow>
         (\<exists>x. configure_begin st1 dev1 ev1 force1 te1 = (Returned x, st1))"
    using configure_begin_in_flight by blast
  have 4: "fst (configure_begin st dev ev force te) = Awaiting p \<longrightarrow>
          ieeeAddr dev \<notin> configuring st
        \<and> ieeeAddr dev \<in> configuring (snd (configure_begin st dev ev force te))
        \<and> effects (snd (configure_begin st dev ev force te))
            = effects st @ [Log_configuring (dev_name dev), Invoke (ieeeAddr dev)]"
    using configure_begin_awaiting(1-3)[of st dev ev force te p] by simp
  have 5: "ieeeAddr (p_device q) \<notin> configuring (snd (configure_end st2 q out))"
    by (simp add: configure_end_configuring)
  from 1 2 3 4 5 show ?thesis by blast
qed

theorem configure_single_flight_witness:
  "length (in_flight (run example_env initial_sys
       [Ev_started example_router,
        Ev_mqttMessage ''zigbee2mqtt/bridge/request/device/configure'' ''0x00124b0001'',
        Ev_lastSeenChanged example_router]) ''0x00124b0001'') \<le> 1
   \<and> ieeeAddr example_router \<in> configuring example_begun
   \<and> (\<exists>x. configure_begin example_begun example_router Mqtt_message True True = (Returned x, example_begun))
   \<and> fst (configure_begin initial_state example_router Started False False) = Awaiting example_pending
   \<and> ieeeAddr example_router \<in> configuring (snd (configure_begin initial_state example_router Started False False))
   \<and> ieeeAddr (p_device example_pending)
        \<notin> configuring (snd (configure_end example_begun example_pending (Rejected (JsError ''timeout'' []))))"
proof -
  have h1: "ieeeAddr example_router \<in> configuring example_begun"
    by (simp add: example_router_def example_begun_def)
  have h2: "fst (configure_begin initial_state example_router Started False False) = Awaiting example_pending"
    by (simp add: configure_begin_def initial_state_def example_router_def example_pending_def)
  show ?thesis
    using h1 h2
      configure_single_flight[where env = example_env
        and evs = "[Ev_started example_router,
                    Ev_mqttMessage ''zigbee2mqtt/bridge/request/device/configure'' ''0x00124b0001'',
                    Ev_lastSeenChanged example_router]"
        and a = "''0x00124b0001''"
        and ?dev1.0 = example_router and ?st1.0 = example_begun and ?ev1.0 = Mqtt_message
        and ?force1.0 = True and ?te1.0 = True
        and st = initial_state and dev = example_router and ev = Started and force = False
        and te = False and p = example_pending
        and q = example_pending and ?st2.0 = example_begun
        and out = "Rejected (JsError ''timeout'' [])"]
    by blast
qed

section \<open>The failure counters under every interleaving\<close>

lemma configure_begin_failed_count:
  "failed_count (snd (configure_begin st dev ev force te)) a = failed_count st a"
  by (simp add: configure_begin_def failed_count_def split: option.split)

lemma configure_begin_not_NaN:
  "attempts st a \<noteq> Some NaN \<Longrightarrow> attempts (snd (configure_begin st dev ev force te)) a \<noteq> Some NaN"
  by (auto simp: configure_begin_def split: option.split)

lemma configure_begin_defined:
  "attempts st a \<noteq> None \<Longrightarrow> attempts (snd (configure_begin st dev ev force te)) a \<noteq> None"
  by (auto simp: configure_begin_def split: option.split)

lemma configure_begin_awaiting_defined:
  "fst (configure_begin st dev ev force te) = Awaiting p \<Longrightarrow>
     attempts (snd (configure_begin st dev ev force te)) (ieeeAddr dev) \<noteq> None"
  by (simp add: configure_begin_awaiting(4))

lemma after_begin_attempts:
  assumes "attempts_inv s" and "attempts st = attempts (world s)"
  shows "attempts_inv (after_begin s (configure_begin st dev ev force te))
         \<and> failed_count (world (after_begin s (configure_begin st dev ev force te))) a
             = failed_count (world s) a"
proof -
  let ?r = "configure_begin st dev ev force te"
  have fc: "failed_count (snd ?r) a = failed_count (world s) a"
    using configure_begin_failed_count[of st dev ev force te a] assms(2)
    by (simp add: failed_count_def)
  have nn: "attempts (snd ?r) b \<noteq> Some NaN" for b
    using assms by (simp add: configure_begin_not_NaN attempts_inv_def)
  have df: "attempts (snd ?r) (task_addr t) \<noteq> None" if "t \<in> set (tasks s)" for t
    using assms that by (simp add: configure_begin_defined attempts_inv_def)
  have "attempts_inv (after_begin s ?r)"
  proof (cases "fst ?r")
    case (Returned x)
    with nn df show ?thesis
      by (simp add: attempts_inv_def after_begin_world after_begin_tasks)
  next
    case (Awaiting p)
    from configure_begin_awaiting(5)[OF Awaiting] configure_begin_awaiting_defined[OF Awaiting]
    have "attempts (snd ?r) (ieeeAddr (p_device p)) \<noteq> None" by simp
    with Awaiting nn df show ?thesis
      by (auto simp: attempts_inv_def after_begin_world after_begin_tasks task_addr_def)
  qed
  with fc show ?thesis by (simp add: after_begin_world)
qed

lemma after_handler_mqtt_attempts:
  assumes "attempts_inv s"
  shows "attempts_inv (after_handler s (onMQTTMessage env (world s) topic msg))
         \<and> failed_count (world (after_handler s (onMQTTMessage env (world s) topic msg))) a
             = failed_count (world s) a"
proof (cases "onMQTTMessage env (world s) topic msg")
  case (Pair r st')
  from onMQTTMessage_cases[OF Pair] show ?thesis
  proof
    assume "(r = Handler_done \<or> (\<exists>e. r = Handler_thrown e)) \<and> configuring st' = configuring (world s)
            \<and> attempts st' = attempts (world s) \<and> meta_configured st' = meta_configured (world s)"
    with assms Pair show ?thesis
      by (auto simp: attempts_inv_def failed_count_def after_handler_world after_handler_tasks)
  next
    assume "\<exists>p c. r = Handler_awaiting p c
              \<and> fst (configure_begin (world s) (p_device p) Mqtt_message True True) = Awaiting p
              \<and> st' = snd (configure_begin (world s) (p_device p) Mqtt_message True True)"
    then obtain p c where r: "r = Handler_awaiting p c"
      and aw: "fst (configure_begin (world s) (p_device p) Mqtt_message True True) = Awaiting p"
      and st': "st' = snd (configure_begin (world s) (p_device p) Mqtt_message True True)"
      by blast
    have nn: "attempts st' b \<noteq> Some NaN" for b
      using assms st' by (simp add: configure_begin_not_NaN attempts_inv_def)
    have df: "attempts st' (task_addr t) \<noteq> None" if "t \<in> set (tasks s)" for t
      using assms that st' by (simp add: configure_begin_defined attempts_inv_def)
    have new: "attempts st' (ieeeAddr (p_device p)) \<noteq> None"
      using configure_begin_awaiting_defined[OF aw] st' by simp
    have fc: "failed_count st' a = failed_count (world s) a"
      using st' by (simp add: configure_begin_failed_count)
    from nn df new fc r Pair show ?thesis
      by (auto simp: attempts_inv_def after_handler_world after_handler_tasks task_addr_def)
  qed
qed

lemma settle_attempts:
  assumes "attempts_inv s" and "sys_inv s" and "i < length (tasks s)"
  shows "attempts_inv (after_handler (s\<lparr>tasks := take i (tasks s) @ drop (Suc i) (tasks s)\<rparr>)
                 (resume env (world s) (t_frame (tasks s ! i)) (t_caller (tasks s ! i)) out))
         \<and> failed_count (world (after_handler (s\<lparr>tasks := take i (tasks s) @ drop (Suc i) (tasks s)\<rparr>)
                 (resume env (world s) (t_frame (tasks s ! i)) (t_caller (tasks s ! i)) out))) a
             = failed_count (world s) a + (if is_failure s (Ev_settle i out) a then 1 else 0)"
proof -
  let ?p = "t_frame (tasks s ! i)"
  let ?b = "task_addr (tasks s ! i)"
  let ?r = "resume env (world s) ?p (t_caller (tasks s ! i)) out"
  have mem: "tasks s ! i \<in> set (tasks s)" using assms(3) by simp
  have nn: "attempts (world s) x \<noteq> Some NaN" for x using assms(1) by (simp add: attempts_inv_def)
  have "attempts (world s) ?b \<noteq> None" using assms(1) mem by (simp add: attempts_inv_def)
  with nn[of ?b] obtain n where n: "attempts (world s) ?b = Some (Num n)"
    by (cases "attempts (world s) ?b") (auto intro: js_number.exhaust)
  have att: "attempts (snd ?r) =
     (case out of Resolved \<Rightarrow> attempts (world s)
      | Rejected e \<Rightarrow> (attempts (world s))(?b \<mapsto> Num (Suc n)))"
    using n by (simp add: resume_world configure_end_attempts task_addr_def split: outcome.split)
  have t: "tasks (after_handler (s\<lparr>tasks := take i (tasks s) @ drop (Suc i) (tasks s)\<rparr>) ?r)
            = take i (tasks s) @ drop (Suc i) (tasks s)"
    by (cases "fst ?r") (simp_all add: after_handler_tasks resume_not_awaiting)
  have sub: "set (take i (tasks s) @ drop (Suc i) (tasks s)) \<subseteq> set (tasks s)"
    using set_take_subset[of i "tasks s"] set_drop_subset[of "Suc i" "tasks s"] by auto
  have inv: "attempts_inv (after_handler (s\<lparr>tasks := take i (tasks s) @ drop (Suc i) (tasks s)\<rparr>) ?r)"
    unfolding attempts_inv_def t after_handler_world
    using nn assms(1) sub att by (cases out) (auto simp: attempts_inv_def)
  have fc: "failed_count (snd ?r) a
             = failed_count (world s) a + (if is_failure s (Ev_settle i out) a then 1 else 0)"
    using n assms(3) att
    by (cases out) (auto simp: failed_count_def is_failure_def)
  from inv fc show ?thesis by (simp add: after_handler_world)
qed

lemma step_attempts:
  assumes "attempts_inv s" and "sys_inv s"
  shows "attempts_inv (step env s ev)
         \<and> failed_count (world (step env s ev)) a
             = failed_count (world s) a + (if is_failure s ev a then 1 else 0)"
proof (cases ev)
  case (Ev_settle i out)
  show ?thesis
  proof (cases "i < length (tasks s)")
    case True
    with settle_attempts[OF assms True, of env out a] Ev_settle show ?thesis
      by (simp add: step_def)
  next
    case False
    with assms Ev_settle show ?thesis
      by (simp add: step_def is_failure_def split: outcome.split)
  qed
next
  case (Ev_mqttMessage topic msg)
  with after_handler_mqtt_attempts[OF assms(1), of env topic msg a] show ?thesis
    by (simp add: step_def is_failure_def)
next
  case (Ev_started dev)
  with after_begin_attempts[OF assms(1), of "world s" dev Started False False a] assms(1)
  show ?thesis by (simp add: step_def is_failure_def onStarted_def)
next
  case (Ev_deviceJoined dev)
  with after_begin_attempts[OF assms(1), of "clear_marker (world s) dev" dev Zigbee_event False False a]
  show ?thesis by (simp add: step_def is_failure_def onDeviceJoined_def clear_marker_attempts)
next
  case (Ev_deviceInterview dev)
  with after_begin_attempts[OF assms(1), of "world s" dev Zigbee_event False False a]
  show ?thesis by (simp add: step_def is_failure_def onDeviceInterview_def)
next
  case (Ev_lastSeenChanged dev)
  with after_begin_attempts[OF assms(1), of "world s" dev Zigbee_event False False a]
  show ?thesis by (simp add: step_def is_failure_def onLastSeenChanged_def)
next
  case (Ev_reconfigure dev)
  with after_begin_attempts[OF assms(1), of "clear_marker (world s) dev" dev Reporting_disabled False False a]
  show ?thesis by (simp add: step_def is_failure_def onReconfigure_def clear_marker_attempts)
qed

lemma run_attempts:
  "attempts_inv s \<Longrightarrow> sys_inv s \<Longrightarrow>
     attempts_inv (run env s evs)
     \<and> failed_count (world (run env s evs)) a = failed_count (world s) a + failures env s evs a"
proof (induction evs arbitrary: s)
  case Nil
  then show ?case by (simp add: run_def)
next
  case (Cons ev evs)
  from step_attempts[OF Cons.prems, of env ev a]
  have 1: "attempts_inv (step env s ev)"
    and 2: "failed_count (world (step env s ev)) a
             = failed_count (world s) a + (if is_failure s ev a then 1 else 0)"
    by simp_all
  from Cons.IH[OF 1 step_inv[OF Cons.prems(2)]] 2 show ?case
    by (simp add: run_def)
qed

lemma initial_attempts_inv: "attempts_inv initial_sys"
  by (simp add: attempts_inv_def initial_sys_def initial_state_def)

lemma failed_count_ge3: "3 \<le> failed_count st a \<Longrightarrow> js_ge3 (attempts st a)"
  by (cases "attempts st a"; cases "the (attempts st a)") (simp_all add: failed_count_def)

section \<open>The gates of Configure.configure\<close>

lemma configure_begin_no_configure:
  "\<not> has_configure dev \<Longrightarrow> configure_begin st dev ev force te = (Returned Exit_no_configure, st)"
  by (cases "dev_definition dev") (simp_all add: configure_begin_def has_configure_def)

lemma configure_begin_ceiling:
  "js_ge3 (attempts st (ieeeAddr dev)) \<Longrightarrow> \<exists>x. configure_begin st dev ev False te = (Returned x, st)"
  by (cases "dev_definition dev"; cases "attempts st (ieeeAddr dev)")
     (simp_all add: configure_begin_def)

lemma configure_begin_configured:
  "meta_configured st (ieeeAddr dev) \<noteq> None \<Longrightarrow>
     \<exists>x. configure_begin st dev ev False te = (Returned x, st)"
  by (cases "dev_definition dev") (auto simp: configure_begin_def)

lemma configure_begin_forced:
  "has_configure dev \<Longrightarrow> ieeeAddr dev \<notin> configuring st \<Longrightarrow>
     \<exists>p. fst (configure_begin st dev ev True te) = Awaiting p"
  by (cases "dev_definition dev") (simp_all add: configure_begin_def has_configure_def)

lemma configure_begin_forced_gate:
  "has_configure dev \<Longrightarrow> reaches_gate (fst (configure_begin st dev ev True te))"
  by (cases "dev_definition dev")
     (simp_all add: configure_begin_def has_configure_def reaches_gate_def)

lemma configure_begin_eligible_ceiling:
  assumes "has_configure dev" and "\<not> options_disabled dev" and "interviewed dev"
    and "meta_configured st (ieeeAddr dev) = None" and "zh_type dev \<noteq> ''EndDevice'' \<or> ev = Zigbee_event"
    and "js_ge3 (attempts st (ieeeAddr dev))"
  shows "configure_begin st dev ev False te = (Returned Exit_gate, st)"
  using assms by (cases "dev_definition dev"; cases "attempts st (ieeeAddr dev)")
     (auto simp: configure_begin_def has_configure_def)

lemma configure_begin_eligible:
  assumes "has_configure dev" and "\<not> options_disabled dev" and "interviewed dev"
    and "meta_configured st (ieeeAddr dev) = None" and "zh_type dev \<noteq> ''EndDevice'' \<or> ev = Zigbee_event"
    and "\<not> js_ge3 (attempts st (ieeeAddr dev))" and "ieeeAddr dev \<notin> configuring st"
  shows "\<exists>p. fst (configure_begin st dev ev force te) = Awaiting p"
  using assms by (cases "dev_definition dev"; cases "attempts st (ieeeAddr dev)")
     (auto simp: configure_begin_def has_configure_def)

lemma clear_marker_meta: "meta_configured (clear_marker st dev) (ieeeAddr dev) = None"
  by (simp add: clear_marker_def)

lemma clear_marker_other:
  "ieeeAddr dev \<noteq> a \<Longrightarrow> meta_configured (clear_marker st dev) a = meta_configured st a"
  by (simp add: clear_marker_def)

lemma clear_marker_effects:
  "meta_configured st (ieeeAddr dev) \<noteq> None \<Longrightarrow>
     effects (clear_marker st dev) = effects st @ [Save (ieeeAddr dev) None]"
  by (simp add: clear_marker_def)

text \<open>
  Claim C2. Let the failure counter of a device be a number that has reached 3. Then a
  call of \<open>configure\<close> that is not forced returns with the state unchanged, whatever the
  event, and so does each listener that calls it with the events \<open>started\<close> and
  \<open>zigbee_event\<close>; the listeners that clear the marker first return without invoking
  the routine as well. A forced call for a device with a routine that is not in flight
  invokes the routine all the same, and a forced call for a device in flight returns
  with the state unchanged.
\<close>

theorem configure_ceiling:
  assumes "attempts st (ieeeAddr dev) = Some (Num n)" and "3 \<le> n"
  shows "(\<exists>x. configure_begin st dev ev False te = (Returned x, st))
       \<and> (\<exists>x. onStarted st dev = (Returned x, st))
       \<and> (\<exists>x. onDeviceInterview st dev = (Returned x, st))
       \<and> (\<exists>x. onLastSeenChanged st dev = (Returned x, st))
       \<and> (\<exists>x. fst (onReconfigure st dev) = Returned x)
       \<and> (\<exists>x. fst (onDeviceJoined st dev) = Returned x)
       \<and> (has_configure dev \<and> ieeeAddr dev \<notin> configuring st \<longrightarrow>
            (\<exists>p. fst (configure_begin st dev ev True te) = Awaiting p)
            \<and> effects (snd (configure_begin st dev ev True te))
                = effects st @ [Log_configuring (dev_name dev), Invoke (ieeeAddr dev)])
       \<and> (ieeeAddr dev \<in> configuring st \<longrightarrow>
            (\<exists>x. configure_begin st dev ev True te = (Returned x, st)))"
proof -
  have ge: "js_ge3 (attempts st (ieeeAddr dev))" using assms by simp
  have ge': "js_ge3 (attempts (clear_marker st dev) (ieeeAddr dev))"
    using ge by (simp add: clear_marker_attempts)
  have 1: "\<exists>x. configure_begin st dev e False t = (Returned x, st)" for e t
    using ge by (rule configure_begin_ceiling)
  have 2: "\<exists>x. fst (configure_begin (clear_marker st dev) dev e False t) = Returned x" for e t
    using configure_begin_ceiling[OF ge', of e t] by auto
  have 3: "(\<exists>p. fst (configure_begin st dev ev True te) = Awaiting p)
            \<and> effects (snd (configure_begin st dev ev True te))
                = effects st @ [Log_configuring (dev_name dev), Invoke (ieeeAddr dev)]"
    if "has_configure dev" and "ieeeAddr dev \<notin> configuring st"
  proof -
    from configure_begin_forced[OF that] obtain p
      where p: "fst (configure_begin st dev ev True te) = Awaiting p" by blast
    from configure_begin_awaiting(3)[OF p] p show ?thesis by blast
  qed
  have 4: "\<exists>x. configure_begin st dev ev True te = (Returned x, st)" if "ieeeAddr dev \<in> configuring st"
    using that by (rule configure_begin_in_flight)
  from 1 2 3 4 show ?thesis
    by (simp add: onStarted_def onDeviceInterview_def onLastSeenChanged_def onReconfigure_def
          onDeviceJoined_def)
qed

theorem configure_ceiling_witness:
  "attempts example_exhausted (ieeeAddr example_router) = Some (Num 3) \<and> (3::nat) \<le> 3
   \<and> (\<exists>x. configure_begin example_exhausted example_router Started False False
             = (Returned x, example_exhausted))
   \<and> has_configure example_router \<and> ieeeAddr example_router \<notin> configuring example_exhausted
   \<and> (\<exists>p. fst (configure_begin example_exhausted example_router Mqtt_message True True) = Awaiting p)
   \<and> attempts example_exhausted_busy (ieeeAddr example_router) = Some (Num 3)
   \<and> ieeeAddr example_router \<in> configuring example_exhausted_busy
   \<and> (\<exists>x. configure_begin example_exhausted_busy example_router Mqtt_message True True
             = (Returned x, example_exhausted_busy))"
proof -
  have a: "attempts example_exhausted (ieeeAddr example_router) = Some (Num 3)"
    by (simp add: example_exhausted_def example_router_def)
  have b: "attempts example_exhausted_busy (ieeeAddr example_router) = Some (Num 3)"
    by (simp add: example_exhausted_busy_def example_router_def)
  have c: "has_configure example_router" by (simp add: has_configure_def example_router_def)
  have d: "ieeeAddr example_router \<notin> configuring example_exhausted"
    by (simp add: example_exhausted_def)
  have e: "ieeeAddr example_router \<in> configuring example_exhausted_busy"
    by (simp add: example_exhausted_busy_def example_router_def)
  from configure_ceiling[OF a, of Started False] configure_ceiling[OF a, of Mqtt_message True]
    configure_ceiling[OF b, of Mqtt_message True] a b c d e
  show ?thesis by simp
qed

text \<open>
  Claim C3, as stated, fails: a forced call for a device without a definition leaves
  \<open>configure\<close> at rule 1 and does not get to the concurrency gate.
\<close>

theorem forced_call_stops_at_rule_1:
  "\<not> reaches_gate (fst (configure_begin initial_state example_plain Mqtt_message True True))"
  by (simp add: configure_begin_def example_plain_def reaches_gate_def)

text \<open>
  Claim C3, amended. Rule 1 is checked before the force flag is looked at: a call,
  forced or not, for a device whose definition is absent or has no routine returns at
  rule 1 with the state unchanged. A forced call gets to the concurrency gate exactly
  when the device has a routine, so rules 2 to 4 are skipped by it; a call that is not
  forced stops before the gate when one of the rules 2 to 4 applies.
\<close>

theorem forced_skips_rules_2_to_4:
  "reaches_gate (fst (configure_begin st dev ev True te)) = has_configure dev
   \<and> (\<not> has_configure dev \<longrightarrow> configure_begin st dev ev force te = (Returned Exit_no_configure, st))
   \<and> (options_disabled dev \<or> \<not> interviewed dev \<or> meta_configured st (ieeeAddr dev) \<noteq> None
        \<or> (zh_type dev = ''EndDevice'' \<and> ev \<noteq> Zigbee_event) \<longrightarrow>
          \<not> reaches_gate (fst (configure_begin st dev ev False te)))"
proof -
  have 1: "reaches_gate (fst (configure_begin st dev ev True te)) = has_configure dev"
  proof (cases "has_configure dev")
    case True
    then show ?thesis by (simp add: configure_begin_forced_gate)
  next
    case False
    then show ?thesis by (simp add: configure_begin_no_configure reaches_gate_def)
  qed
  have 2: "\<not> has_configure dev \<longrightarrow> configure_begin st dev ev force te = (Returned Exit_no_configure, st)"
    by (simp add: configure_begin_no_configure)
  have 3: "options_disabled dev \<or> \<not> interviewed dev \<or> meta_configured st (ieeeAddr dev) \<noteq> None
        \<or> (zh_type dev = ''EndDevice'' \<and> ev \<noteq> Zigbee_event) \<longrightarrow>
          \<not> reaches_gate (fst (configure_begin st dev ev False te))"
    by (cases "dev_definition dev") (auto simp: configure_begin_def reaches_gate_def)
  from 1 2 3 show ?thesis by blast
qed

theorem forced_skips_rules_2_to_4_witness:
  "reaches_gate (fst (configure_begin example_configured example_router Mqtt_message True True))
   \<and> \<not> has_configure example_plain
   \<and> configure_begin example_configured example_plain Mqtt_message True True
        = (Returned Exit_no_configure, example_configured)
   \<and> meta_configured example_configured (ieeeAddr example_router) \<noteq> None
   \<and> \<not> reaches_gate (fst (configure_begin example_configured example_router Started False False))"
proof -
  have a: "has_configure example_router" by (simp add: has_configure_def example_router_def)
  have b: "\<not> has_configure example_plain" by (simp add: has_configure_def example_plain_def)
  have c: "meta_configured example_configured (ieeeAddr example_router) \<noteq> None"
    by (simp add: example_configured_def example_router_def)
  from forced_skips_rules_2_to_4[of example_configured example_router Mqtt_message True True]
    forced_skips_rules_2_to_4[of example_configured example_plain Mqtt_message True True]
    forced_skips_rules_2_to_4[of example_configured example_router Started False False]
    a b c
  show ?thesis by simp
qed

section \<open>Devices without a configuration routine\<close>

lemma same_bookkeeping_after_begin:
  "\<not> has_configure dev \<Longrightarrow> configuring st = configuring (world s) \<Longrightarrow> attempts st = attempts (world s) \<Longrightarrow>
     same_bookkeeping s (after_begin s (configure_begin st dev ev force te))"
  by (simp add: configure_begin_no_configure after_begin_def same_bookkeeping_def)

lemma onMQTTMessage_no_configure:
  assumes "\<not> has_configure dev" and "resolveEntity env i = Some (Entity_device dev)"
    and "message_id (parseJSON env msg msg) = Inr (Some i)"
  shows "onMQTTMessage env st (request_topic env) msg =
     (Handler_done,
      respond env st (parseJSON env msg msg) (Some i)
        (Some (''Device '' @ quoted (dev_name dev) @ '' cannot be configured'')))"
  using assms by (cases "dev_definition dev") (simp_all add: onMQTTMessage_def has_configure_def Let_def)

text \<open>
  Claim C4. For a device whose definition is absent or has no routine, \<open>configure\<close>
  returns at its first statement with the state unchanged, forced or not and whatever
  the event. Hence every trigger for that device, and a request that resolves to it,
  leaves the in-flight set, the failure counters and the suspended attempts as they
  were.
\<close>

theorem no_routine_no_bookkeeping:
  assumes "\<not> has_configure dev"
  shows "configure_begin st dev ev force te = (Returned Exit_no_configure, st)
       \<and> same_bookkeeping s (step env s (Ev_started dev))
       \<and> same_bookkeeping s (step env s (Ev_deviceJoined dev))
       \<and> same_bookkeeping s (step env s (Ev_deviceInterview dev))
       \<and> same_bookkeeping s (step env s (Ev_lastSeenChanged dev))
       \<and> same_bookkeeping s (step env s (Ev_reconfigure dev))
       \<and> (resolveEntity env i = Some (Entity_device dev) \<and> message_id (parseJSON env msg msg) = Inr (Some i)
            \<longrightarrow> same_bookkeeping s (step env s (Ev_mqttMessage topic msg)))"
proof -
  have 1: "configure_begin st dev ev force te = (Returned Exit_no_configure, st)"
    using assms by (rule configure_begin_no_configure)
  have 2: "same_bookkeeping s (step env s (Ev_started dev))"
    using assms by (simp add: step_def onStarted_def same_bookkeeping_after_begin)
       (simp add: same_bookkeeping_def)
  have 3: "same_bookkeeping s (step env s (Ev_deviceJoined dev))"
    using assms
    by (simp add: step_def onDeviceJoined_def same_bookkeeping_after_begin
          clear_marker_configuring clear_marker_attempts)
  have 4: "same_bookkeeping s (step env s (Ev_deviceInterview dev))"
    using assms by (simp add: step_def onDeviceInterview_def same_bookkeeping_after_begin)
  have 5: "same_bookkeeping s (step env s (Ev_lastSeenChanged dev))"
    using assms by (simp add: step_def onLastSeenChanged_def same_bookkeeping_after_begin)
  have 6: "same_bookkeeping s (step env s (Ev_reconfigure dev))"
    using assms
    by (simp add: step_def onReconfigure_def same_bookkeeping_after_begin
          clear_marker_configuring clear_marker_attempts)
  have 7: "same_bookkeeping s (step env s (Ev_mqttMessage topic msg))"
    if r: "resolveEntity env i = Some (Entity_device dev)"
      and m: "message_id (parseJSON env msg msg) = Inr (Some i)"
  proof (cases "topic = request_topic env")
    case True
    with onMQTTMessage_no_configure[OF assms r m, of "world s"] show ?thesis
      by (simp add: step_def after_handler_def same_bookkeeping_def respond_configuring respond_attempts)
  next
    case False
    then show ?thesis
      by (simp add: step_def onMQTTMessage_def after_handler_def same_bookkeeping_def)
  qed
  from 1 2 3 4 5 6 7 show ?thesis by blast
qed

theorem no_routine_no_bookkeeping_witness:
  "\<not> has_configure example_plain
   \<and> configure_begin initial_state example_plain Mqtt_message True True
        = (Returned Exit_no_configure, initial_state)
   \<and> same_bookkeeping initial_sys (step example_env initial_sys (Ev_reconfigure example_plain))
   \<and> resolveEntity example_env (JString ''0x00124b0002'') = Some (Entity_device example_plain)
   \<and> message_id (parseJSON example_env ''0x00124b0002'' ''0x00124b0002'') = Inr (Some (JString ''0x00124b0002''))
   \<and> same_bookkeeping initial_sys
        (step example_env initial_sys
           (Ev_mqttMessage ''zigbee2mqtt/bridge/request/device/configure'' ''0x00124b0002''))"
proof -
  have a: "\<not> has_configure example_plain" by (simp add: has_configure_def example_plain_def)
  have b: "resolveEntity example_env (JString ''0x00124b0002'') = Some (Entity_device example_plain)"
    by (simp add: example_env_def)
  have c: "message_id (parseJSON example_env ''0x00124b0002'' ''0x00124b0002'')
            = Inr (Some (JString ''0x00124b0002''))"
    by (simp add: parseJSON_def example_env_def example_parse_def)
  from no_routine_no_bookkeeping[OF a, of initial_state Mqtt_message True True initial_sys example_env
      "JString ''0x00124b0002''" "''0x00124b0002''" "''zigbee2mqtt/bridge/request/device/configure''"]
    a b c
  show ?thesis by simp
qed

section \<open>The configured marker\<close>

lemma step_marker:
  assumes "meta_configured (world s) a \<noteq> None" and "\<not> clears_marker ev a"
  shows "meta_configured (world (step env s ev)) a \<noteq> None"
proof (cases ev)
  case (Ev_started dev)
  with assms show ?thesis
    by (simp add: step_def onStarted_def after_begin_world configure_begin_meta)
next
  case (Ev_deviceJoined dev)
  with assms show ?thesis
    by (simp add: step_def onDeviceJoined_def after_begin_world configure_begin_meta
          clears_marker_def clear_marker_other)
next
  case (Ev_deviceInterview dev)
  with assms show ?thesis
    by (simp add: step_def onDeviceInterview_def after_begin_world configure_begin_meta)
next
  case (Ev_lastSeenChanged dev)
  with assms show ?thesis
    by (simp add: step_def onLastSeenChanged_def after_begin_world configure_begin_meta)
next
  case (Ev_reconfigure dev)
  with assms show ?thesis
    by (simp add: step_def onReconfigure_def after_begin_world configure_begin_meta
          clears_marker_def clear_marker_other)
next
  case (Ev_mqttMessage topic msg)
  obtain r st' where Pair: "onMQTTMessage env (world s) topic msg = (r, st')"
    by (cases "onMQTTMessage env (world s) topic msg")
  from onMQTTMessage_cases[OF Pair] have "meta_configured st' = meta_configured (world s)"
    by (auto simp: configure_begin_meta)
  with assms Ev_mqttMessage Pair show ?thesis
    by (simp add: step_def after_handler_world)
next
  case (Ev_settle i out)
  with assms show ?thesis
    by (cases out) (simp_all add: step_def after_handler_world resume_world configure_end_meta)
qed

lemma run_marker:
  "meta_configured (world s) a \<noteq> None \<Longrightarrow> \<forall>ev \<in> set evs. \<not> clears_marker ev a \<Longrightarrow>
     meta_configured (world (run env s evs)) a \<noteq> None"
proof (induction evs arbitrary: s)
  case Nil
  then show ?case by (simp add: run_def)
next
  case (Cons ev evs)
  have "meta_configured (world (step env s ev)) a \<noteq> None"
    using step_marker[of s a ev env] Cons.prems by simp
  from Cons.IH[OF this] Cons.prems(2) show ?case by (simp add: run_def)
qed

text \<open>
  Claim C5. While the marker of a device is set, a call of \<open>configure\<close> that is not
  forced returns with the state unchanged, whatever the event, and so do the listeners
  that do not clear the marker. The marker stays set through every run none of whose
  events is a reconfigure request or a join of that device. Those two listeners delete
  the marker and save the device, and only then call \<open>configure\<close>, which invokes the
  routine again when the device is otherwise eligible.
\<close>

theorem configured_marker_idempotent:
  assumes "meta_configured st (ieeeAddr dev) \<noteq> None"
  shows "(\<exists>x. configure_begin st dev ev False te = (Returned x, st))
       \<and> (\<exists>x. onStarted st dev = (Returned x, st))
       \<and> (\<exists>x. onDeviceInterview st dev = (Returned x, st))
       \<and> (\<exists>x. onLastSeenChanged st dev = (Returned x, st))
       \<and> (meta_configured (world s) a \<noteq> None \<and> (\<forall>e \<in> set evs. \<not> clears_marker e a) \<longrightarrow>
            meta_configured (world (run env s evs)) a \<noteq> None)
       \<and> meta_configured (clear_marker st dev) (ieeeAddr dev) = None
       \<and> effects (clear_marker st dev) = effects st @ [Save (ieeeAddr dev) None]
       \<and> onReconfigure st dev = configure_begin (clear_marker st dev) dev Reporting_disabled False False
       \<and> onDeviceJoined st dev = configure_begin (clear_marker st dev) dev Zigbee_event False False
       \<and> (has_configure dev \<and> \<not> options_disabled dev \<and> interviewed dev \<and> zh_type dev \<noteq> ''EndDevice''
            \<and> \<not> js_ge3 (attempts st (ieeeAddr dev)) \<and> ieeeAddr dev \<notin> configuring st \<longrightarrow>
            (\<exists>p. fst (onReconfigure st dev) = Awaiting p) \<and> (\<exists>p. fst (onDeviceJoined st dev) = Awaiting p))"
proof -
  have 1: "\<exists>x. configure_begin st dev e False t = (Returned x, st)" for e t
    using assms by (rule configure_begin_configured)
  have 2: "meta_configured (world s) a \<noteq> None \<and> (\<forall>e \<in> set evs. \<not> clears_marker e a) \<longrightarrow>
            meta_configured (world (run env s evs)) a \<noteq> None"
    using run_marker[of s a evs env] by blast
  have 3: "meta_configured (clear_marker st dev) (ieeeAddr dev) = None"
    by (rule clear_marker_meta)
  have 4: "effects (clear_marker st dev) = effects st @ [Save (ieeeAddr dev) None]"
    using assms by (rule clear_marker_effects)
  have 5: "\<exists>p. fst (configure_begin (clear_marker st dev) dev e False t) = Awaiting p"
    if "has_configure dev" "\<not> options_disabled dev" "interviewed dev" "zh_type dev \<noteq> ''EndDevice''"
       "\<not> js_ge3 (attempts st (ieeeAddr dev))" "ieeeAddr dev \<notin> configuring st" for e t
    using that clear_marker_meta[of st dev]
    by (intro configure_begin_eligible) (simp_all add: clear_marker_attempts clear_marker_configuring)
  from 1 2 3 4 5 show ?thesis
    by (simp add: onStarted_def onDeviceInterview_def onLastSeenChanged_def onReconfigure_def
          onDeviceJoined_def)
qed

theorem configured_marker_idempotent_witness:
  "meta_configured example_configured (ieeeAddr example_router) \<noteq> None
   \<and> (\<exists>x. configure_begin example_configured example_router Zigbee_event False False
             = (Returned x, example_configured))
   \<and> meta_configured (world \<lparr>world = example_configured, tasks = [], uncaught = []\<rparr>) ''0x00124b0001'' \<noteq> None
   \<and> \<not> clears_marker (Ev_started example_router) ''0x00124b0001''
   \<and> \<not> clears_marker (Ev_lastSeenChanged example_router) ''0x00124b0001''
   \<and> \<not> clears_marker (Ev_reconfigure example_plain) ''0x00124b0001''
   \<and> meta_configured (world (run example_env \<lparr>world = example_configured, tasks = [], uncaught = []\<rparr>
         [Ev_started example_router, Ev_lastSeenChanged example_router, Ev_reconfigure example_plain]))
        ''0x00124b0001'' \<noteq> None
   \<and> has_configure example_router \<and> \<not> options_disabled example_router \<and> interviewed example_router
   \<and> zh_type example_router \<noteq> ''EndDevice''
   \<and> \<not> js_ge3 (attempts example_configured (ieeeAddr example_router))
   \<and> ieeeAddr example_router \<notin> configuring example_configured
   \<and> (\<exists>p. fst (onReconfigure example_configured example_router) = Awaiting p)"
proof -
  have a: "meta_configured example_configured (ieeeAddr example_router) \<noteq> None"
    by (simp add: example_configured_def example_router_def)
  have b: "meta_configured (world \<lparr>world = example_configured, tasks = [], uncaught = []\<rparr>) ''0x00124b0001'' \<noteq> None"
    by (simp add: example_configured_def)
  have c: "\<forall>e \<in> set [Ev_started example_router, Ev_lastSeenChanged example_router,
                    Ev_reconfigure example_plain]. \<not> clears_marker e ''0x00124b0001''"
    by (simp add: clears_marker_def example_plain_def)
  have c': "\<not> clears_marker (Ev_started example_router) ''0x00124b0001''
      \<and> \<not> clears_marker (Ev_lastSeenChanged example_router) ''0x00124b0001''
      \<and> \<not> clears_marker (Ev_reconfigure example_plain) ''0x00124b0001''"
    by (simp add: clears_marker_def example_plain_def)
  have d: "has_configure example_router \<and> \<not> options_disabled example_router \<and> interviewed example_router
   \<and> zh_type example_router \<noteq> ''EndDevice''
   \<and> \<not> js_ge3 (attempts example_configured (ieeeAddr example_router))
   \<and> ieeeAddr example_router \<notin> configuring example_configured"
    by (simp add: has_configure_def example_router_def example_configured_def)
  from configured_marker_idempotent[OF a, of Zigbee_event False
      "\<lparr>world = example_configured, tasks = [], uncaught = []\<rparr>" "''0x00124b0001''"
      "[Ev_started example_router, Ev_lastSeenChanged example_router, Ev_reconfigure example_plain]"
      example_env]
    a b c c' d
  show ?thesis by blast
qed

section \<open>Failures count whoever asked\<close>

text \<open>
  Claim C9. A rejected attempt increments the counter of its device whether or not the
  error is rethrown, and the force flag is not consulted after the routine has settled.
  After every run from the initial state the counter of an address is the number of
  attempts for it that were rejected during the run, forced or not. Once three have
  been rejected, a call that is not forced returns with the state unchanged, and for a
  device that passes the eligibility rules it returns at the ceiling check.
\<close>

theorem failures_count_whoever_asked:
  "attempts (snd (configure_end st p (Rejected e))) (ieeeAddr (p_device p))
     = Some (js_incr (attempts st (ieeeAddr (p_device p))))
   \<and> failed_count (world (run env initial_sys evs)) a = failures env initial_sys evs a
   \<and> (3 \<le> failures env initial_sys evs (ieeeAddr dev) \<longrightarrow>
        (\<exists>x. configure_begin (world (run env initial_sys evs)) dev ev False te
               = (Returned x, world (run env initial_sys evs))))
   \<and> (3 \<le> failures env initial_sys evs (ieeeAddr dev)
        \<and> has_configure dev \<and> \<not> options_disabled dev \<and> interviewed dev
        \<and> meta_configured (world (run env initial_sys evs)) (ieeeAddr dev) = None
        \<and> (zh_type dev \<noteq> ''EndDevice'' \<or> ev = Zigbee_event) \<longrightarrow>
        configure_begin (world (run env initial_sys evs)) dev ev False te
          = (Returned Exit_gate, world (run env initial_sys evs)))"
proof -
  let ?w = "world (run env initial_sys evs)"
  have 1: "attempts (snd (configure_end st p (Rejected e))) (ieeeAddr (p_device p))
     = Some (js_incr (attempts st (ieeeAddr (p_device p))))"
    by (simp add: configure_end_attempts)
  have fc: "failed_count ?w b = failures env initial_sys evs b" for b
    using run_attempts[OF initial_attempts_inv initial_inv, of env evs b]
    by (simp add: failed_count_def initial_sys_def initial_state_def)
  have ge: "js_ge3 (attempts ?w (ieeeAddr dev))" if "3 \<le> failures env initial_sys evs (ieeeAddr dev)"
    using that fc[of "ieeeAddr dev"] by (simp add: failed_count_ge3)
  have 3: "3 \<le> failures env initial_sys evs (ieeeAddr dev) \<longrightarrow>
        (\<exists>x. configure_begin ?w dev ev False te = (Returned x, ?w))"
    using ge configure_begin_ceiling by blast
  have 4: "3 \<le> failures env initial_sys evs (ieeeAddr dev)
        \<and> has_configure dev \<and> \<not> options_disabled dev \<and> interviewed dev
        \<and> meta_configured ?w (ieeeAddr dev) = None
        \<and> (zh_type dev \<noteq> ''EndDevice'' \<or> ev = Zigbee_event) \<longrightarrow>
        configure_begin ?w dev ev False te = (Returned Exit_gate, ?w)"
    using ge configure_begin_eligible_ceiling[of dev ?w ev te] by blast
  from 1 fc[of a] 3 4 show ?thesis by blast
qed

lemma example_failed_thrice_failures:
  "failures example_env initial_sys example_failed_thrice ''0x00124b0001'' = 3"
  by (simp add: example_failed_thrice_def is_failure_def step_def onMQTTMessage_def request_topic_def
        example_env_def example_parse_def parseJSON_def Let_def example_router_def configure_begin_def
        after_handler_def initial_sys_def initial_state_def resume_def configure_end_def respond_def
        task_addr_def)

theorem failures_count_whoever_asked_witness:
  "3 \<le> failures example_env initial_sys example_failed_thrice (ieeeAddr example_router)
   \<and> (\<exists>x. configure_begin (world (run example_env initial_sys example_failed_thrice)) example_router
             Zigbee_event False False
           = (Returned x, world (run example_env initial_sys example_failed_thrice)))
   \<and> has_configure example_router \<and> \<not> options_disabled example_router \<and> interviewed example_router
   \<and> meta_configured (world (run example_env initial_sys example_failed_thrice)) (ieeeAddr example_router) = None
   \<and> zh_type example_router \<noteq> ''EndDevice''
   \<and> configure_begin (world (run example_env initial_sys example_failed_thrice)) example_router
        Started False False
      = (Returned Exit_gate, world (run example_env initial_sys example_failed_thrice))"
proof -
  have a: "3 \<le> failures example_env initial_sys example_failed_thrice (ieeeAddr example_router)"
    using example_failed_thrice_failures by (simp add: example_router_def)
  have b: "has_configure example_router \<and> \<not> options_disabled example_router \<and> interviewed example_router
      \<and> zh_type example_router \<noteq> ''EndDevice''"
    by (simp add: has_configure_def example_router_def)
  have c: "meta_configured (world (run example_env initial_sys example_failed_thrice))
             (ieeeAddr example_router) = None"
    by (simp add: run_def example_failed_thrice_def step_def onMQTTMessage_def request_topic_def
        example_env_def example_parse_def parseJSON_def Let_def example_router_def configure_begin_def
        after_handler_def initial_sys_def initial_state_def resume_def configure_end_def respond_def)
  from failures_count_whoever_asked[of _ _ _ example_env example_failed_thrice _ example_router
         Zigbee_event False]
    failures_count_whoever_asked[of _ _ _ example_env example_failed_thrice _ example_router
         Started False]
    a b c
  show ?thesis by blast
qed

section \<open>The configure request handler\<close>

lemma onMQTTMessage_bad_id:
  assumes "JSON_parse env msg = Some (JObject [(''id'', JString ''bad_id'')])"
    and "resolveEntity env (JString ''bad_id'') = None"
  shows "onMQTTMessage env st (request_topic env) msg =
    (Handler_done,
     st\<lparr>effects := effects st @
       [Publish response_topic
         (stringify env
           (JObject [(''id'', JString ''bad_id''), (''status'', JString ''error''),
                     (''error'', JString (''Device '' @ quoted ''bad_id'' @ '' does not exist''))]))]\<rparr>)"
  using assms
  by (simp add: onMQTTMessage_def parseJSON_def Let_def respond_def getResponse_def template_def
        response_topic_def)

lemma onMQTTMessage_done_responds:
  assumes "fst (onMQTTMessage env st (request_topic env) msg) = Handler_done"
  shows "\<exists>payload. effects (snd (onMQTTMessage env st (request_topic env) msg))
                     = effects st @ [Publish response_topic payload]"
proof (cases "message_id (parseJSON env msg msg)")
  case (Inl e)
  with assms show ?thesis by (simp add: onMQTTMessage_def Let_def)
next
  case (Inr ido)
  show ?thesis
  proof (cases ido)
    case None
    with Inr show ?thesis by (simp add: onMQTTMessage_def Let_def respond_def response_topic_def)
  next
    case (Some i)
    show ?thesis
    proof (cases "resolveEntity env i")
      case None
      with Some Inr show ?thesis
        by (simp add: onMQTTMessage_def Let_def respond_def response_topic_def)
    next
      case (Some ent)
      note ent = this
      show ?thesis
      proof (cases ent)
        case Entity_group
        with ent \<open>ido = Some i\<close> Inr show ?thesis
          by (simp add: onMQTTMessage_def Let_def respond_def response_topic_def)
      next
        case (Entity_device dev)
        note facts = Entity_device ent \<open>ido = Some i\<close> Inr
        show ?thesis
        proof (cases "case dev_definition dev of None \<Rightarrow> True | Some d \<Rightarrow> \<not> def_configure d")
          case True
          with facts show ?thesis
            by (simp add: onMQTTMessage_def Let_def respond_def response_topic_def)
        next
          case False
          show ?thesis
          proof (cases "fst (configure_begin st dev Mqtt_message True True)")
            case (Returned x)
            with configure_begin_returned[OF Returned] False facts show ?thesis
              by (cases "configure_begin st dev Mqtt_message True True")
                 (simp add: onMQTTMessage_def Let_def respond_def response_topic_def)
          next
            case (Awaiting p)
            with False facts assms show ?thesis
              by (cases "configure_begin st dev Mqtt_message True True")
                 (simp add: onMQTTMessage_def Let_def)
          qed
        qed
      qed
    qed
  qed
qed

lemma resume_mqtt_responds:
  "fst (resume env st p (From_mqtt message ID) out) = Handler_done
   \<and> (\<exists>payload. effects (snd (resume env st p (From_mqtt message ID) out))
         = effects (snd (configure_end st p out)) @ [Publish response_topic payload])"
  by (cases "configure_end st p out") (simp add: resume_def respond_def response_topic_def)

text \<open>
  Claim C6 fails at the payload \<open>null\<close>: \<open>JSON.parse\<close> yields \<open>null\<close>, whose
  \<open>typeof\<close> is \<open>"object"\<close>, and reading \<open>message.id\<close> throws a TypeError before
  anything is published. The handler throws and leaves the state, and with it the list
  of published responses, as it was.
\<close>

theorem null_request_throws:
  assumes "JSON_parse env msg = Some JNull"
  shows "onMQTTMessage env st (request_topic env) msg = (Handler_thrown TypeError, st)"
  using assms by (simp add: onMQTTMessage_def parseJSON_def)

theorem null_request_throws_witness:
  "JSON_parse example_env ''null'' = Some JNull
   \<and> onMQTTMessage example_env initial_state ''zigbee2mqtt/bridge/request/device/configure'' ''null''
       = (Handler_thrown TypeError, initial_state)"
proof -
  have a: "JSON_parse example_env ''null'' = Some JNull"
    by (simp add: example_env_def example_parse_def)
  have b: "request_topic example_env = ''zigbee2mqtt/bridge/request/device/configure''"
    by (simp add: request_topic_def example_env_def)
  from null_request_throws[OF a, of initial_state] a b show ?thesis by simp
qed

section \<open>The WebSocket gateway\<close>

text \<open>
  Claim C7. When a non-empty \<open>auth_token\<close> is configured and the token of the query
  string is not that very string, the socket is closed with code 4401 and nothing else
  happens to it: the message listener is not attached and nothing is sent. When no
  \<open>auth_token\<close> is configured, the connection handler runs whatever the query holds,
  and the socket is not closed by the upgrade.
\<close>

theorem upgrade_authorization:
  "(auth_token env = Some t \<and> t \<noteq> [] \<and> token \<noteq> Token_string t \<longrightarrow>
      onUpgrade env token retained devs payload_of ws = ws\<lparr>ws_closed := Some (4401, ''Unauthorized'')\<rparr>
    \<and> ws_message_listener (onUpgrade env token retained devs payload_of ws) = ws_message_listener ws
    \<and> ws_sent (onUpgrade env token retained devs payload_of ws) = ws_sent ws)
   \<and> (auth_token env = None \<longrightarrow>
      onUpgrade env token retained devs payload_of ws = onWebSocketConnection env retained devs payload_of ws
    \<and> ws_message_listener (onUpgrade env token retained devs payload_of ws)
    \<and> ws_closed (onUpgrade env token retained devs payload_of ws) = ws_closed ws)"
  by (simp add: onUpgrade_def authorized_def onWebSocketConnection_def)

theorem upgrade_authorization_witness:
  "auth_token example_env = Some ''secret'' \<and> ''secret'' \<noteq> [] \<and> Token_string ''wrong'' \<noteq> Token_string ''secret''
   \<and> onUpgrade example_env (Token_string ''wrong'') [] [example_router] (\<lambda>d. JNull) new_websocket
       = new_websocket\<lparr>ws_closed := Some (4401, ''Unauthorized'')\<rparr>
   \<and> \<not> ws_message_listener
       (onUpgrade example_env (Token_string ''wrong'') [] [example_router] (\<lambda>d. JNull) new_websocket)
   \<and> ws_sent
       (onUpgrade example_env (Token_string ''wrong'') [] [example_router] (\<lambda>d. JNull) new_websocket) = []
   \<and> auth_token (example_env\<lparr>auth_token := None\<rparr>) = None
   \<and> ws_message_listener
       (onUpgrade (example_env\<lparr>auth_token := None\<rparr>) Token_absent [] [example_router] (\<lambda>d. JNull) new_websocket)
   \<and> ws_closed
       (onUpgrade (example_env\<lparr>auth_token := None\<rparr>) Token_absent [] [example_router] (\<lambda>d. JNull) new_websocket)
      = None"
proof -
  have a: "auth_token example_env = Some ''secret'' \<and> ''secret'' \<noteq> []
             \<and> Token_string ''wrong'' \<noteq> Token_string ''secret''"
    by (simp add: example_env_def)
  have b: "auth_token (example_env\<lparr>auth_token := None\<rparr>) = None" by simp
  have c: "\<not> ws_message_listener new_websocket \<and> ws_sent new_websocket = []
             \<and> ws_closed new_websocket = None"
    by (simp add: new_websocket_def)
  from upgrade_authorization[of example_env "''secret''" "Token_string ''wrong''" "[]" "[example_router]"
         "\<lambda>d. JNull" new_websocket]
    upgrade_authorization[of "example_env\<lparr>auth_token := None\<rparr>" "''secret''" Token_absent "[]"
         "[example_router]" "\<lambda>d. JNull" new_websocket]
    a b c
  show ?thesis by metis
qed

text \<open>
  Claim C8. A text message of a client that parses to an object with the properties
  \<open>topic\<close> and \<open>payload\<close> makes exactly one call of \<open>mqtt.onMessage\<close>: the topic is
  the base topic, a slash and the topic of the message, and the payload is the stable
  \<open>stringify\<close> of the payload of the message.
\<close>

theorem client_message_bridged:
  "(JSON_parse env message = Some (JObject kvs) \<and> map_of kvs ''topic'' = Some tv
      \<and> map_of kvs ''payload'' = Some p \<longrightarrow>
      ws_onMessage env (Some message) False
        = Inr [(base_topic env @ ''/'' @ template env tv, stringify env p)])
   \<and> template env (JString t) = t"
  by (simp add: ws_onMessage_def template_def)

theorem client_message_bridged_witness:
  \<open>JSON_parse example_env ''{"topic": "t", "payload": {"a":1}}''
      = Some (JObject [(''topic'', JString ''t''), (''payload'', JObject [(''a'', JNumber 1)])])
   \<and> map_of [(''topic'', JString ''t''), (''payload'', JObject [(''a'', JNumber 1)])] ''topic''
      = Some (JString ''t'')
   \<and> map_of [(''topic'', JString ''t''), (''payload'', JObject [(''a'', JNumber 1)])] ''payload''
      = Some (JObject [(''a'', JNumber 1)])
   \<and> ws_onMessage example_env (Some ''{"topic": "t", "payload": {"a":1}}'') False
      = Inr [(''zigbee2mqtt/t'', ''{"a":1}'')]\<close>
proof -
  have a: \<open>JSON_parse example_env ''{"topic": "t", "payload": {"a":1}}''
      = Some (JObject [(''topic'', JString ''t''), (''payload'', JObject [(''a'', JNumber 1)])])\<close>
    by (simp add: example_env_def example_parse_def)
  have b: "map_of [(''topic'', JString ''t''), (''payload'', JObject [(''a'', JNumber 1)])] ''topic''
      = Some (JString ''t'')"
    "map_of [(''topic'', JString ''t''), (''payload'', JObject [(''a'', JNumber 1)])] ''payload''
      = Some (JObject [(''a'', JNumber 1)])"
    by simp_all
  have c: \<open>base_topic example_env = ''zigbee2mqtt''
      \<and> stringify example_env (JObject [(''a'', JNumber 1)]) = ''{"a":1}''\<close>
    by (simp add: example_env_def)
  from client_message_bridged[of example_env _ "[(''topic'', JString ''t''), (''payload'', JObject [(''a'', JNumber 1)])]"
         "JString ''t''" "JObject [(''a'', JNumber 1)]" "''t''"]
    a b c
  show ?thesis by simp
qed

text \<open>
  Claim C10. A text message of a client that \<open>JSON.parse\<close> rejects makes the message
  listener throw the SyntaxError: the result is the error, and no call of
  \<open>mqtt.onMessage\<close> is made.
\<close>

theorem malformed_client_message_throws:
  assumes "JSON_parse env message = None"
  shows "ws_onMessage env (Some message) False = Inl SyntaxError"
  using assms by (simp add: ws_onMessage_def)

theorem malformed_client_message_throws_witness:
  "JSON_parse example_env ''{topic'' = None
   \<and> ws_onMessage example_env (Some ''{topic'') False = Inl SyntaxError"
proof -
  have a: "JSON_parse example_env ''{topic'' = None"
    by (simp add: example_env_def example_parse_def)
  from malformed_client_message_throws[OF a] a show ?thesis by simp
qed

end
